theory Spec2Isabelle
  imports Main
begin

section \<open>JavaScript values\<close>

text \<open>
  The server exists in three iterations: the first is \<^verbatim>\<open>src/app.js\<close>, the second is
  lines 1-178 of \<^verbatim>\<open>src/unnamed/part_000\<close> and the third is lines 179-299 of that file.
  Below, what belongs to one iteration carries the suffix \<open>_v1\<close>, \<open>_v2\<close> or \<open>_v3\<close>, and
  what the three share word for word is defined once.

  The handlers work on dynamically typed data: the parsed body of the completion
  response, the query field of the form, the content derived from the uploaded file.
  These are embedded as one datatype of JavaScript values.

  Numbers are the integer-valued ones; fractional numbers are floating-point matters
  and stay outside the embedding. An object is the list of its own properties, each key
  once. Query, file content and answer are texts in the data the server is made for; an
  object that carries a property \<^verbatim>\<open>toString\<close> of its own, which no conversion to a
  string accepts, is not among these values.
\<close>

datatype jsval =
    JUndefined
  | JNull
  | JBool bool
  | JNum int
  | JStr string
  | JArr "jsval list"
  | JObj "(string \<times> jsval) list"

text \<open>A thrown value, as the catch blocks read it: \<^verbatim>\<open>error.response\<close> (kept as the
  \<^verbatim>\<open>data\<close> of that response), whether \<^verbatim>\<open>error.request\<close> is set, and
  \<^verbatim>\<open>error.message\<close>.\<close>

datatype js_error = JsError (err_response: "jsval option") (err_request: bool) (err_message: string)

section \<open>The request and its surroundings\<close>

text \<open>\<^verbatim>\<open>req.file\<close> as multer fills it in, and the request: \<^verbatim>\<open>req.body.query\<close> (\<^verbatim>\<open>undefined\<close>
  when the form has no such field) and the optional file.\<close>

record upload =
  file_path :: string
  file_mimetype :: string
  file_originalname :: string

record request =
  req_query :: jsval
  req_file :: "upload option"

text \<open>How \<^verbatim>\<open>fs.createReadStream(path).pipe(csvParser())\<close> runs: the rows of the
  parser's \<^verbatim>\<open>data\<close> events, and then the parser's \<^verbatim>\<open>end\<close>, or the parser's
  \<^verbatim>\<open>error\<close>, or an \<^verbatim>\<open>error\<close> of the file stream underneath, which \<^verbatim>\<open>pipe\<close> does not
  pass on to the parser.\<close>

datatype stream_end = StreamEnd | StreamError js_error | SourceError js_error

text \<open>
  Everything the handlers call that is not code of the repository is a field of the
  surroundings:
  \<^item> \<open>read_file\<close>: \<^verbatim>\<open>fs.readFileSync(path, 'utf8')\<close>, the text or the error thrown;
  \<^item> \<open>csv_stream\<close>: \<^verbatim>\<open>fs.createReadStream(path).pipe(csvParser())\<close>;
  \<^item> \<open>read_xlsx\<close>: \<^verbatim>\<open>workbook.xlsx.readFile(path)\<close>, the error or the worksheets, each
    the \<^verbatim>\<open>row.values\<close> of the rows \<^verbatim>\<open>eachRow\<close> visits, in order;
  \<^item> \<open>json_parse\<close>: \<^verbatim>\<open>JSON.parse\<close>, the value or the SyntaxError thrown;
  \<^item> \<open>post_completion\<close>: \<^verbatim>\<open>axios.post\<close> to the completion endpoint with the given
    \<^verbatim>\<open>messages\<close> (model and headers are constants): the error the promise rejects
    with, or \<^verbatim>\<open>response.data\<close>;
  \<^item> \<open>now_start\<close>, \<open>now_end\<close>: the two readings of \<^verbatim>\<open>Date.now()\<close>;
  \<^item> \<open>str_positive\<close>: whether a string, converted to a number, is greater than 0;
  \<^item> \<open>number_text\<close>: the string of a number beyond the safe integers, where the runtime
    prints the shortest digits that give the same floating-point number back.
\<close>

record world =
  read_file :: "string \<Rightarrow> js_error + string"
  csv_stream :: "string \<Rightarrow> jsval list \<times> stream_end"
  read_xlsx :: "string \<Rightarrow> js_error + jsval list list"
  json_parse :: "string \<Rightarrow> js_error + jsval"
  post_completion :: "jsval list \<Rightarrow> js_error + jsval"
  now_start :: int
  now_end :: int
  str_positive :: "string \<Rightarrow> bool"
  number_text :: "int \<Rightarrow> string"

section \<open>Operations on values\<close>

text \<open>The safe integers: up to \<open>2^53 - 1\<close> in magnitude, every integer is a floating-point
  number of its own and is printed digit for digit.\<close>

definition plain_int :: "int \<Rightarrow> bool" where
  "plain_int n = (\<bar>n\<bar> < 2 ^ 53)"

fun show_nat :: "nat \<Rightarrow> string" where
  "show_nat n = (if n < 10 then [''0123456789'' ! n] else show_nat (n div 10) @ [''0123456789'' ! (n mod 10)])"

definition show_int :: "int \<Rightarrow> string" where
  "show_int n = (if n < 0 then CHR ''-'' # show_nat (nat (- n)) else show_nat (nat n))"



text \<open>The string of a number, as a template literal and \<^verbatim>\<open>JSON.stringify\<close> print it.\<close>

definition number_to_string :: "world \<Rightarrow> int \<Rightarrow> string" where
  "number_to_string w n = (if plain_int n then show_int n else number_text w n)"

fun intercalate :: "string \<Rightarrow> string list \<Rightarrow> string" where
  "intercalate sep [] = []"
| "intercalate sep [x] = x"
| "intercalate sep (x # y # zs) = x @ sep @ intercalate sep (y # zs)"

text \<open>Truthiness, as \<^verbatim>\<open>if (v)\<close>, \<^verbatim>\<open>v || d\<close> and \<^verbatim>\<open>v && w\<close> test it.\<close>

fun truthy :: "jsval \<Rightarrow> bool" where
  "truthy JUndefined = False"
| "truthy JNull = False"
| "truthy (JBool b) = b"
| "truthy (JNum n) = (n \<noteq> 0)"
| "truthy (JStr s) = (s \<noteq> [])"
| "truthy (JArr xs) = True"
| "truthy (JObj kvs) = True"

definition js_or :: "jsval \<Rightarrow> jsval \<Rightarrow> jsval" where
  "js_or v d = (if truthy v then v else d)"

text \<open>String conversion, as a template literal \<^verbatim>\<open>`${v}`\<close> performs it. The elements of an
  array are joined with commas, \<^verbatim>\<open>undefined\<close> and \<^verbatim>\<open>null\<close> elements printing as nothing.\<close>

fun to_string :: "world \<Rightarrow> jsval \<Rightarrow> string" where
  "to_string w JUndefined = ''undefined''"
| "to_string w JNull = ''null''"
| "to_string w (JBool b) = (if b then ''true'' else ''false'')"
| "to_string w (JNum n) = number_to_string w n"
| "to_string w (JStr s) = s"
| "to_string w (JArr xs) =
     intercalate '','' (map (\<lambda>x. if x = JUndefined \<or> x = JNull then [] else to_string w x) xs)"
| "to_string w (JObj kvs) = ''[object Object]''"

text \<open>Property reads. Reading a property of \<^verbatim>\<open>undefined\<close> or \<^verbatim>\<open>null\<close> throws a TypeError
  (an error with neither \<^verbatim>\<open>response\<close> nor \<^verbatim>\<open>request\<close>); its message is worded as
  Node's engine words it. The handlers read the properties \<^verbatim>\<open>usage\<close>, \<^verbatim>\<open>total_tokens\<close>,
  \<^verbatim>\<open>choices\<close>, \<^verbatim>\<open>message\<close>, \<^verbatim>\<open>content\<close> and \<^verbatim>\<open>length\<close> and the index \<^verbatim>\<open>0\<close>; of
  these only \<^verbatim>\<open>length\<close> exists on arrays and strings without being an own property.\<close>

definition type_error :: "string \<Rightarrow> string \<Rightarrow> js_error" where
  "type_error what p =
     JsError None False
       (''Cannot read properties of '' @ what @ '' (reading '' @ [CHR 0x27] @ p @ [CHR 0x27] @ '')'')"

fun get_prop :: "jsval \<Rightarrow> string \<Rightarrow> js_error + jsval" where
  "get_prop JUndefined p = Inl (type_error ''undefined'' p)"
| "get_prop JNull p = Inl (type_error ''null'' p)"
| "get_prop (JBool b) p = Inr JUndefined"
| "get_prop (JNum n) p = Inr JUndefined"
| "get_prop (JStr s) p = Inr (if p = ''length'' then JNum (int (length s)) else JUndefined)"
| "get_prop (JArr xs) p = Inr (if p = ''length'' then JNum (int (length xs)) else JUndefined)"
| "get_prop (JObj kvs) p = Inr (case map_of kvs p of None \<Rightarrow> JUndefined | Some v \<Rightarrow> v)"

fun get_index :: "jsval \<Rightarrow> nat \<Rightarrow> js_error + jsval" where
  "get_index JUndefined i = Inl (type_error ''undefined'' (show_nat i))"
| "get_index JNull i = Inl (type_error ''null'' (show_nat i))"
| "get_index (JBool b) i = Inr JUndefined"
| "get_index (JNum n) i = Inr JUndefined"
| "get_index (JStr s) i = Inr (if i < length s then JStr [s ! i] else JUndefined)"
| "get_index (JArr xs) i = Inr (if i < length xs then xs ! i else JUndefined)"
| "get_index (JObj kvs) i = Inr (case map_of kvs (show_nat i) of None \<Rightarrow> JUndefined | Some v \<Rightarrow> v)"

text \<open>Optional chaining \<^verbatim>\<open>v?.p\<close>: \<^verbatim>\<open>undefined\<close> where \<^verbatim>\<open>v\<close> is \<^verbatim>\<open>undefined\<close> or \<^verbatim>\<open>null\<close>.\<close>

definition opt_prop :: "jsval \<Rightarrow> string \<Rightarrow> jsval" where
  "opt_prop v p = (case get_prop v p of Inl e \<Rightarrow> JUndefined | Inr x \<Rightarrow> x)"

subsection \<open>JSON.stringify\<close>

definition json_escape :: "char \<Rightarrow> string" where
  "json_escape c =
     (if c = CHR 0x22 then [CHR 0x5C, CHR 0x22]
      else if c = CHR 0x5C then [CHR 0x5C, CHR 0x5C]
      else if c = CHR 0x08 then [CHR 0x5C, CHR ''b'']
      else if c = CHR 0x09 then [CHR 0x5C, CHR ''t'']
      else if c = CHR 0x0A then [CHR 0x5C, CHR ''n'']
      else if c = CHR 0x0C then [CHR 0x5C, CHR ''f'']
      else if c = CHR 0x0D then [CHR 0x5C, CHR ''r'']
      else if (of_char c :: nat) < 32
        then [CHR 0x5C, CHR ''u'', CHR ''0'', CHR ''0'',
              ''0123456789abcdef'' ! (of_char c div 16), ''0123456789abcdef'' ! (of_char c mod 16)]
      else [c])"

definition json_quote :: "string \<Rightarrow> string" where
  "json_quote s = CHR 0x22 # concat (map json_escape s) @ [CHR 0x22]"

text \<open>The text of a value inside an array or an object: an \<^verbatim>\<open>undefined\<close> element of an
  array is written \<^verbatim>\<open>null\<close>, a property whose value is \<^verbatim>\<open>undefined\<close> is left out.\<close>

fun serialize :: "world \<Rightarrow> jsval \<Rightarrow> string" where
  "serialize w JUndefined = ''null''"
| "serialize w JNull = ''null''"
| "serialize w (JBool b) = (if b then ''true'' else ''false'')"
| "serialize w (JNum n) = number_to_string w n"
| "serialize w (JStr s) = json_quote s"
| "serialize w (JArr xs) = ''['' @ intercalate '','' (map (serialize w) xs) @ '']''"
| "serialize w (JObj kvs) =
     ''{'' @ intercalate '',''
        (map (\<lambda>kv. json_quote (fst kv) @ '':'' @ serialize w (snd kv))
           (filter (\<lambda>kv. snd kv \<noteq> JUndefined) kvs)) @ ''}''"

text \<open>\<^verbatim>\<open>JSON.stringify(v)\<close>: a string, or \<^verbatim>\<open>undefined\<close> for \<^verbatim>\<open>undefined\<close>.\<close>

definition json_stringify :: "world \<Rightarrow> jsval \<Rightarrow> jsval" where
  "json_stringify w v = (if v = JUndefined then JUndefined else JStr (serialize w v))"

section \<open>What the handler does\<close>

text \<open>What a request does, in order: reading the upload, \<^verbatim>\<open>fs.unlink\<close> of it, the call of
  the completion endpoint with its messages, a response (status and body) sent with
  \<^verbatim>\<open>res\<close>, for the upload filter of \<^verbatim>\<open>src/app.js\<close> the error handed to the
  framework in place of running the handler, and an \<^verbatim>\<open>error\<close> event that has no
  listener: the runtime throws it, nothing catches it, and the process ends with the
  request unanswered. Logging is left out.\<close>

datatype body = Json jsval | Text string

datatype event =
    FileRead string
  | Unlink string
  | CompletionCall "jsval list"
  | Respond nat body
  | UploadRejected string
  | UncaughtError js_error

text \<open>The parts of a trace: the messages of each completion call, the responses, the
  files unlinked and the files read.\<close>

fun completion_calls :: "event list \<Rightarrow> jsval list list" where
  "completion_calls [] = []"
| "completion_calls (CompletionCall ms # tr) = ms # completion_calls tr"
| "completion_calls (e # tr) = completion_calls tr"

fun responses :: "event list \<Rightarrow> (nat \<times> body) list" where
  "responses [] = []"
| "responses (Respond st b # tr) = (st, b) # responses tr"
| "responses (e # tr) = responses tr"

fun unlinks :: "event list \<Rightarrow> string list" where
  "unlinks [] = []"
| "unlinks (Unlink p # tr) = p # unlinks tr"
| "unlinks (e # tr) = unlinks tr"

fun file_reads :: "event list \<Rightarrow> string list" where
  "file_reads [] = []"
| "file_reads (FileRead p # tr) = p # file_reads tr"
| "file_reads (e # tr) = file_reads tr"

text \<open>The uploads directory after a request: \<^verbatim>\<open>fs.unlink\<close> removes the file.\<close>

fun storage_after :: "string list \<Rightarrow> event list \<Rightarrow> string list" where
  "storage_after st [] = st"
| "storage_after st (Unlink p # tr) = storage_after (removeAll p st) tr"
| "storage_after st (e # tr) = storage_after st tr"

section \<open>Turning the upload into text\<close>

text \<open>The chain of tests on \<^verbatim>\<open>req.file.mimetype\<close> inside the handler's \<^verbatim>\<open>try\<close>
  (\<^verbatim>\<open>src/app.js\<close> 84-116, \<^verbatim>\<open>part_000\<close> 76-108 and 223-245; the three copies agree). Its
  outcome is the new \<^verbatim>\<open>fileContent\<close>, an error thrown inside the \<^verbatim>\<open>try\<close>, that no test
  matched, or an error that is thrown outside every \<^verbatim>\<open>try\<close>.\<close>

datatype normalized = Content jsval | Thrown js_error | Unsupported | Uncaught js_error

definition xlsx_mime :: string where
  "xlsx_mime = ''application/vnd.openxmlformats-officedocument.spreadsheetml.sheet''"

text \<open>\<^verbatim>\<open>dataArray.push(data)\<close> for each row, and \<^verbatim>\<open>rows.push(row.values)\<close> likewise.\<close>

fun push_all :: "jsval list \<Rightarrow> jsval list \<Rightarrow> jsval list" where
  "push_all acc [] = acc"
| "push_all acc (d # ds) = push_all (acc @ [d]) ds"

text \<open>The promise around the stream: \<^verbatim>\<open>end\<close> resolves it with the rows, the parser's
  \<^verbatim>\<open>error\<close> rejects it, which the \<^verbatim>\<open>await\<close> throws. The listeners are on the stream that
  \<^verbatim>\<open>pipe\<close> returns, the parser; the file stream has none, and its \<^verbatim>\<open>error\<close> is uncaught.\<close>

definition normalize_csv :: "world \<Rightarrow> string \<Rightarrow> normalized" where
  "normalize_csv w p =
     (case csv_stream w p of
        (rows, StreamEnd) \<Rightarrow> Content (json_stringify w (JArr (push_all [] rows)))
      | (rows, StreamError e) \<Rightarrow> Thrown e
      | (rows, SourceError e) \<Rightarrow> Uncaught e)"

definition normalize_text :: "world \<Rightarrow> string \<Rightarrow> normalized" where
  "normalize_text w p = (case read_file w p of Inl e \<Rightarrow> Thrown e | Inr s \<Rightarrow> Content (JStr s))"

definition normalize_json :: "world \<Rightarrow> string \<Rightarrow> normalized" where
  "normalize_json w p =
     (case read_file w p of
        Inl e \<Rightarrow> Thrown e
      | Inr rawData \<Rightarrow>
          (case json_parse w rawData of
             Inl e \<Rightarrow> Thrown e
           | Inr v \<Rightarrow> Content (json_stringify w v)))"

definition normalize_xlsx :: "world \<Rightarrow> string \<Rightarrow> normalized" where
  "normalize_xlsx w p =
     (case read_xlsx w p of
        Inl e \<Rightarrow> Thrown e
      | Inr worksheets \<Rightarrow>
          (case worksheets of
             [] \<Rightarrow> Thrown (type_error ''undefined'' ''eachRow'')
           | worksheet # others \<Rightarrow> Content (json_stringify w (JArr (push_all [] worksheet)))))"

definition normalize_file :: "world \<Rightarrow> upload \<Rightarrow> event list \<times> normalized" where
  "normalize_file w f =
     (let filePath = file_path f; fileType = file_mimetype f in
      if fileType = ''text/csv'' then ([FileRead filePath], normalize_csv w filePath)
      else if fileType = ''text/plain'' then ([FileRead filePath], normalize_text w filePath)
      else if fileType = ''application/json'' then ([FileRead filePath], normalize_json w filePath)
      else if fileType = xlsx_mime then ([FileRead filePath], normalize_xlsx w filePath)
      else ([], Unsupported))"

section \<open>processQueryAndRespond\<close>

text \<open>The messages: \<^verbatim>\<open>[{role: 'user', content: query || '...'}]\<close>, and the pushed
  \<^verbatim>\<open>{role: 'user', content: `File content: ${fileContent}`}\<close> under \<^verbatim>\<open>if (fileContent)\<close>
  (\<^verbatim>\<open>src/app.js\<close> 140-145, \<^verbatim>\<open>part_000\<close> 138-143 and 269-274; the three copies agree).\<close>

definition user_msg :: "jsval \<Rightarrow> jsval" where
  "user_msg c = JObj [(''role'', JStr ''user''), (''content'', c)]"

definition default_query :: string where
  "default_query = ''Please summarize the file content.''"

definition build_messages :: "world \<Rightarrow> jsval \<Rightarrow> jsval \<Rightarrow> jsval list" where
  "build_messages w query fileContent =
     user_msg (js_or query (JStr default_query)) #
     (if truthy fileContent then [user_msg (JStr (''File content: '' @ to_string w fileContent))] else [])"

text \<open>The catch block of the first and of the second iteration (\<^verbatim>\<open>src/app.js\<close> 172-186,
  \<^verbatim>\<open>part_000\<close> 159-173).\<close>

definition respond_error :: "js_error \<Rightarrow> event list" where
  "respond_error error =
     (case err_response error of
        Some data \<Rightarrow>
          [Respond 500 (Json (JObj [(''message'', JStr ''Error fetching response from OpenAI''),
                                    (''details'', data)]))]
      | None \<Rightarrow>
          if err_request error
          then [Respond 500 (Json (JObj [(''message'', JStr ''Network error: No response received from OpenAI'')]))]
          else [Respond 500 (Json (JObj [(''message'', JStr ''Error processing request''),
                                         (''details'', JStr (err_message error))]))])"

text \<open>The catch block of the third iteration (\<^verbatim>\<open>part_000\<close> 291-294).\<close>

definition respond_error_v3 :: "js_error \<Rightarrow> event list" where
  "respond_error_v3 error =
     [Respond 500 (Json (JObj [(''message'', JStr ''Error processing request''),
                               (''details'', JStr (err_message error))]))]"

text \<open>\<^verbatim>\<open>response.data.usage.total_tokens\<close>.\<close>

definition tokens_used :: "jsval \<Rightarrow> js_error + jsval" where
  "tokens_used data =
     (case get_prop data ''usage'' of Inl e \<Rightarrow> Inl e | Inr usage \<Rightarrow> get_prop usage ''total_tokens'')"

text \<open>\<^verbatim>\<open>response.data.choices[0]?.message?.content || 'No response from AI'\<close>.\<close>

definition ai_response :: "jsval \<Rightarrow> js_error + jsval" where
  "ai_response data =
     (case get_prop data ''choices'' of
        Inl e \<Rightarrow> Inl e
      | Inr choices \<Rightarrow>
          (case get_index choices 0 of
             Inl e \<Rightarrow> Inl e
           | Inr first \<Rightarrow>
               Inr (js_or (opt_prop (opt_prop first ''message'') ''content'') (JStr ''No response from AI''))))"

text \<open>The text after \<^verbatim>\<open>${aiResponse}\<close> in the template of \<^verbatim>\<open>responseWithInfo\<close>.\<close>

definition footer :: "world \<Rightarrow> int \<Rightarrow> jsval \<Rightarrow> string" where
  "footer w responseTime tokensUsed =
     [CHR 0x0A, CHR 0x0A] @ ''---'' @ [CHR 0x0A] @ ''Response time: '' @ to_string w (JNum responseTime)
       @ '' ms | Tokens used: '' @ to_string w tokensUsed"

text \<open>The first iteration: \<^verbatim>\<open>src/app.js\<close> 136-187.\<close>

definition processQueryAndRespond_v1 :: "world \<Rightarrow> jsval \<Rightarrow> jsval \<Rightarrow> event list" where
  "processQueryAndRespond_v1 w query fileContent =
     (let messages = build_messages w query fileContent in
      CompletionCall messages #
      (case post_completion w messages of
         Inl error \<Rightarrow> respond_error error
       | Inr data \<Rightarrow>
           (let responseTime = now_end w - now_start w in
            case tokens_used data of
              Inl error \<Rightarrow> respond_error error
            | Inr tokensUsed \<Rightarrow>
                (case ai_response data of
                   Inl error \<Rightarrow> respond_error error
                 | Inr aiResponse \<Rightarrow>
                     [Respond 200 (Json (JObj [(''response'',
                        JStr (to_string w aiResponse @ footer w responseTime tokensUsed))]))]))))"

text \<open>The second iteration: \<^verbatim>\<open>part_000\<close> 136-174.\<close>

definition processQueryAndRespond_v2 :: "world \<Rightarrow> jsval \<Rightarrow> jsval \<Rightarrow> event list" where
  "processQueryAndRespond_v2 w query fileContent =
     (let messages = build_messages w query fileContent in
      CompletionCall messages #
      (case post_completion w messages of
         Inl error \<Rightarrow> respond_error error
       | Inr data \<Rightarrow>
           (case ai_response data of
              Inl error \<Rightarrow> respond_error error
            | Inr aiResponse \<Rightarrow> [Respond 200 (Json (JObj [(''response'', aiResponse)]))])))"

text \<open>\<^verbatim>\<open>v > 0\<close>: the value converted to a number (an array or an object through its
  string) and compared; \<^verbatim>\<open>undefined\<close> and \<^verbatim>\<open>'[object Object]'\<close> convert to NaN.\<close>

fun js_gt_zero :: "world \<Rightarrow> jsval \<Rightarrow> bool" where
  "js_gt_zero w JUndefined = False"
| "js_gt_zero w JNull = False"
| "js_gt_zero w (JBool b) = b"
| "js_gt_zero w (JNum n) = (0 < n)"
| "js_gt_zero w (JStr s) = str_positive w s"
| "js_gt_zero w (JArr xs) = str_positive w (to_string w (JArr xs))"
| "js_gt_zero w (JObj kvs) = False"

text \<open>\<^verbatim>\<open>response.data.choices[0].message.content\<close>.\<close>

definition first_content :: "jsval \<Rightarrow> js_error + jsval" where
  "first_content choices =
     (case get_index choices 0 of
        Inl e \<Rightarrow> Inl e
      | Inr first \<Rightarrow>
          (case get_prop first ''message'' of
             Inl e \<Rightarrow> Inl e
           | Inr message \<Rightarrow> get_prop message ''content''))"

text \<open>The third iteration: \<^verbatim>\<open>part_000\<close> 267-295.\<close>

definition processQueryAndRespond_v3 :: "world \<Rightarrow> jsval \<Rightarrow> jsval \<Rightarrow> event list" where
  "processQueryAndRespond_v3 w query fileContent =
     (let messages = build_messages w query fileContent in
      CompletionCall messages #
      (case post_completion w messages of
         Inl error \<Rightarrow> respond_error_v3 error
       | Inr data \<Rightarrow>
           (case get_prop data ''choices'' of
              Inl error \<Rightarrow> respond_error_v3 error
            | Inr choices \<Rightarrow>
                if truthy choices \<and> js_gt_zero w (opt_prop choices ''length'')
                then (case first_content choices of
                        Inl error \<Rightarrow> respond_error_v3 error
                      | Inr content \<Rightarrow> [Respond 200 (Json (JObj [(''response'', content)]))])
                else [Respond 200 (Json (JObj [(''response'', JStr ''No valid response from the AI.'')]))])))"

section \<open>The handler of POST /api/chat\<close>

definition file_error_response :: event where
  "file_error_response = Respond 500 (Text ''Error processing file'')"

definition unsupported_message :: string where
  "unsupported_message = ''Unsupported file type. Please upload a CSV, TXT, JSON, or XLSX file.''"

text \<open>The first iteration: \<^verbatim>\<open>src/app.js\<close> 70-133. The chain of tests has no final \<^verbatim>\<open>else\<close> here: with a type that
  matches none, \<^verbatim>\<open>fileContent\<close> keeps its initial \<^verbatim>\<open>''\<close>.\<close>

definition chat_handler_v1 :: "world \<Rightarrow> request \<Rightarrow> event list" where
  "chat_handler_v1 w req =
     (let query = req_query req in
      case req_file req of
        None \<Rightarrow> processQueryAndRespond_v1 w query JNull
      | Some f \<Rightarrow>
          (case normalize_file w f of
             (reads, Thrown error) \<Rightarrow> reads @ [file_error_response]
           | (reads, Content fileContent) \<Rightarrow>
               reads @ [Unlink (file_path f)] @ processQueryAndRespond_v1 w query fileContent
           | (reads, Unsupported) \<Rightarrow>
               reads @ [Unlink (file_path f)] @ processQueryAndRespond_v1 w query (JStr [])
           | (reads, Uncaught error) \<Rightarrow> reads @ [UncaughtError error]))"

text \<open>The \<^verbatim>\<open>fileFilter\<close> given to multer in \<^verbatim>\<open>src/app.js\<close> (47-62): \<^verbatim>\<open>cb(null, true)\<close> or
  \<^verbatim>\<open>cb(new Error(...))\<close>.\<close>

definition allowedTypes :: "string list" where
  "allowedTypes = [''text/csv'', ''text/plain'', ''application/json'', xlsx_mime]"

definition fileFilter :: "upload \<Rightarrow> string + bool" where
  "fileFilter f = (if file_mimetype f \<in> set allowedTypes then Inr True else Inl unsupported_message)"

text \<open>The route of \<^verbatim>\<open>src/app.js\<close>: \<^verbatim>\<open>upload.single('file')\<close>, then the handler. A file the
  filter refuses is not stored, and its error goes to the framework.\<close>

definition post_chat_v1 :: "world \<Rightarrow> request \<Rightarrow> event list" where
  "post_chat_v1 w req =
     (case req_file req of
        None \<Rightarrow> chat_handler_v1 w req
      | Some f \<Rightarrow>
          (case fileFilter f of
             Inl msg \<Rightarrow> [UploadRejected msg]
           | Inr accepted \<Rightarrow> chat_handler_v1 w req))"

text \<open>The second iteration: \<^verbatim>\<open>part_000\<close> 62-133.\<close>

definition chat_handler_v2 :: "world \<Rightarrow> request \<Rightarrow> event list" where
  "chat_handler_v2 w req =
     (let query = req_query req in
      case req_file req of
        None \<Rightarrow> processQueryAndRespond_v2 w query JNull
      | Some f \<Rightarrow>
          (case normalize_file w f of
             (reads, Thrown error) \<Rightarrow> reads @ [file_error_response]
           | (reads, Content fileContent) \<Rightarrow>
               reads @ [Unlink (file_path f)] @ processQueryAndRespond_v2 w query fileContent
           | (reads, Unsupported) \<Rightarrow>
               reads @ [Unlink (file_path f), Respond 400 (Text unsupported_message)]
           | (reads, Uncaught error) \<Rightarrow> reads @ [UncaughtError error]))"

text \<open>The third iteration: \<^verbatim>\<open>part_000\<close> 214-265.\<close>

definition chat_handler_v3 :: "world \<Rightarrow> request \<Rightarrow> event list" where
  "chat_handler_v3 w req =
     (let query = req_query req in
      case req_file req of
        None \<Rightarrow> processQueryAndRespond_v3 w query JNull
      | Some f \<Rightarrow>
          (case normalize_file w f of
             (reads, Thrown error) \<Rightarrow> reads @ [file_error_response]
           | (reads, Content fileContent) \<Rightarrow>
               reads @ [Unlink (file_path f)] @ processQueryAndRespond_v3 w query fileContent
           | (reads, Unsupported) \<Rightarrow>
               reads @ [Unlink (file_path f), Respond 400 (Text ''Unsupported file type.'')]
           | (reads, Uncaught error) \<Rightarrow> reads @ [UncaughtError error]))"

section \<open>A world and requests to run the handlers on\<close>

definition sample_answer :: jsval where
  "sample_answer =
     JObj [(''choices'', JArr [JObj [(''message'', JObj [(''content'', JStr ''Hello'')])]]),
           (''usage'', JObj [(''total_tokens'', JNum 42)])]"

definition sample_world :: world where
  "sample_world =
     \<lparr> read_file = (\<lambda>p. if p = ''uploads/note'' then Inr []
                        else if p = ''uploads/bad'' then Inr ''{''
                        else if p = ''uploads/hello'' then Inr ''hello''
                        else Inl (JsError None False ''ENOENT: no such file or directory'')),
       csv_stream = (\<lambda>p. ([], StreamEnd)),
       read_xlsx = (\<lambda>p. Inr [[]]),
       json_parse = (\<lambda>s. if s = ''{}'' then Inr (JObj [])
                         else Inl (JsError None False ''Unexpected end of JSON input'')),
       post_completion = (\<lambda>ms. Inr sample_answer),
       now_start = 1000,
       now_end = 1850,
       str_positive = (\<lambda>s. False),
       number_text = show_int \<rparr>"

definition sample_upload :: "string \<Rightarrow> string \<Rightarrow> upload" where
  "sample_upload p t = \<lparr> file_path = p, file_mimetype = t, file_originalname = ''upload'' \<rparr>"

definition sample_request :: "string \<Rightarrow> string \<Rightarrow> request" where
  "sample_request p t = \<lparr> req_query = JStr ''What is this?'', req_file = Some (sample_upload p t) \<rparr>"

definition rate_limit_payload :: jsval where
  "rate_limit_payload = JObj [(''error'', JObj [(''message'', JStr ''Rate limit reached'')])]"

definition rate_limit_error :: js_error where
  "rate_limit_error = JsError (Some rate_limit_payload) True ''Request failed with status code 429''"

section \<open>Traces of the parts\<close>



lemma unlinks_append: "unlinks (xs @ ys) = unlinks xs @ unlinks ys"
  by (induction xs rule: unlinks.induct) simp_all

lemma file_reads_append: "file_reads (xs @ ys) = file_reads xs @ file_reads ys"
  by (induction xs rule: file_reads.induct) simp_all

lemma respond_error_parts:
  "completion_calls (respond_error e) = []" "length (responses (respond_error e)) = 1"
  "unlinks (respond_error e) = []" "file_reads (respond_error e) = []"
  by (simp_all add: respond_error_def split: option.split)

lemma respond_error_v3_parts:
  "completion_calls (respond_error_v3 e) = []" "length (responses (respond_error_v3 e)) = 1"
  "unlinks (respond_error_v3 e) = []" "file_reads (respond_error_v3 e) = []"
  by (simp_all add: respond_error_v3_def)

lemma processQueryAndRespond_v1_parts:
  "completion_calls (processQueryAndRespond_v1 w q fc) = [build_messages w q fc]"
  "length (responses (processQueryAndRespond_v1 w q fc)) = 1"
  "unlinks (processQueryAndRespond_v1 w q fc) = []"
  "file_reads (processQueryAndRespond_v1 w q fc) = []"
  by (simp_all add: processQueryAndRespond_v1_def Let_def respond_error_parts split: sum.split)

lemma processQueryAndRespond_v2_parts:
  "completion_calls (processQueryAndRespond_v2 w q fc) = [build_messages w q fc]"
  "length (responses (processQueryAndRespond_v2 w q fc)) = 1"
  "unlinks (processQueryAndRespond_v2 w q fc) = []"
  "file_reads (processQueryAndRespond_v2 w q fc) = []"
  by (simp_all add: processQueryAndRespond_v2_def Let_def respond_error_parts split: sum.split)

lemma processQueryAndRespond_v3_parts:
  "completion_calls (processQueryAndRespond_v3 w q fc) = [build_messages w q fc]"
  "length (responses (processQueryAndRespond_v3 w q fc)) = 1"
  "unlinks (processQueryAndRespond_v3 w q fc) = []"
  "file_reads (processQueryAndRespond_v3 w q fc) = []"
  by (simp_all add: processQueryAndRespond_v3_def Let_def respond_error_v3_parts split: sum.split)

lemma normalize_file_reads:
  "fst (normalize_file w f) =
     (if snd (normalize_file w f) = Unsupported then [] else [FileRead (file_path f)])"
  by (auto simp: normalize_file_def Let_def normalize_csv_def normalize_text_def normalize_json_def
      normalize_xlsx_def split: prod.split stream_end.split sum.split list.split)

lemma normalize_file_unsupported:
  "(snd (normalize_file w f) = Unsupported) = (file_mimetype f \<notin> set allowedTypes)"
  by (auto simp: normalize_file_def Let_def normalize_csv_def normalize_text_def normalize_json_def
      normalize_xlsx_def allowedTypes_def split: prod.split stream_end.split sum.split list.split)

lemma normalize_file_pair:
  "normalize_file w f =
     (if file_mimetype f \<in> set allowedTypes then [FileRead (file_path f)] else [],
      snd (normalize_file w f))"
  using normalize_file_reads [of w f] normalize_file_unsupported [of w f]
  by (cases "normalize_file w f") auto

section \<open>The trace of each handler, by what became of the upload\<close>

lemma chat_handler_v1_trace:
  "chat_handler_v1 w req =
     (case req_file req of
        None \<Rightarrow> processQueryAndRespond_v1 w (req_query req) JNull
      | Some f \<Rightarrow>
          (case snd (normalize_file w f) of
             Thrown e \<Rightarrow> [FileRead (file_path f), file_error_response]
           | Content c \<Rightarrow>
               [FileRead (file_path f), Unlink (file_path f)] @ processQueryAndRespond_v1 w (req_query req) c
           | Unsupported \<Rightarrow> Unlink (file_path f) # processQueryAndRespond_v1 w (req_query req) (JStr [])
           | Uncaught e \<Rightarrow> [FileRead (file_path f), UncaughtError e]))"
  using normalize_file_reads [of w "the (req_file req)"]
  by (auto simp: chat_handler_v1_def Let_def split: option.split prod.split normalized.split)

lemma chat_handler_v2_trace:
  "chat_handler_v2 w req =
     (case req_file req of
        None \<Rightarrow> processQueryAndRespond_v2 w (req_query req) JNull
      | Some f \<Rightarrow>
          (case snd (normalize_file w f) of
             Thrown e \<Rightarrow> [FileRead (file_path f), file_error_response]
           | Content c \<Rightarrow>
               [FileRead (file_path f), Unlink (file_path f)] @ processQueryAndRespond_v2 w (req_query req) c
           | Unsupported \<Rightarrow> [Unlink (file_path f), Respond 400 (Text unsupported_message)]
           | Uncaught e \<Rightarrow> [FileRead (file_path f), UncaughtError e]))"
  using normalize_file_reads [of w "the (req_file req)"]
  by (auto simp: chat_handler_v2_def Let_def split: option.split prod.split normalized.split)

lemma chat_handler_v3_trace:
  "chat_handler_v3 w req =
     (case req_file req of
        None \<Rightarrow> processQueryAndRespond_v3 w (req_query req) JNull
      | Some f \<Rightarrow>
          (case snd (normalize_file w f) of
             Thrown e \<Rightarrow> [FileRead (file_path f), file_error_response]
           | Content c \<Rightarrow>
               [FileRead (file_path f), Unlink (file_path f)] @ processQueryAndRespond_v3 w (req_query req) c
           | Unsupported \<Rightarrow> [Unlink (file_path f), Respond 400 (Text ''Unsupported file type.'')]
           | Uncaught e \<Rightarrow> [FileRead (file_path f), UncaughtError e]))"
  using normalize_file_reads [of w "the (req_file req)"]
  by (auto simp: chat_handler_v3_def Let_def split: option.split prod.split normalized.split)

lemma post_chat_v1_trace:
  "post_chat_v1 w req =
     (case req_file req of
        None \<Rightarrow> processQueryAndRespond_v1 w (req_query req) JNull
      | Some f \<Rightarrow>
          (case snd (normalize_file w f) of
             Thrown e \<Rightarrow> [FileRead (file_path f), file_error_response]
           | Content c \<Rightarrow>
               [FileRead (file_path f), Unlink (file_path f)] @ processQueryAndRespond_v1 w (req_query req) c
           | Unsupported \<Rightarrow> [UploadRejected unsupported_message]
           | Uncaught e \<Rightarrow> [FileRead (file_path f), UncaughtError e]))"
  using normalize_file_unsupported [of w "the (req_file req)"]
  by (auto simp: post_chat_v1_def chat_handler_v1_trace fileFilter_def split: option.split normalized.split)

text \<open>The upload is unlinked once where the chain of tests ran through or matched no type, and
  not at all where it threw or the process ended; no path unlinks it twice.\<close>

lemma unlinks_chat_handler:
  "unlinks (chat_handler_v1 w req) =
     (case req_file req of None \<Rightarrow> []
      | Some f \<Rightarrow> (case snd (normalize_file w f) of Thrown e \<Rightarrow> [] | Content c \<Rightarrow> [file_path f]
                    | Unsupported \<Rightarrow> [file_path f] | Uncaught e \<Rightarrow> []))"
  "unlinks (chat_handler_v2 w req) =
     (case req_file req of None \<Rightarrow> []
      | Some f \<Rightarrow> (case snd (normalize_file w f) of Thrown e \<Rightarrow> [] | Content c \<Rightarrow> [file_path f]
                    | Unsupported \<Rightarrow> [file_path f] | Uncaught e \<Rightarrow> []))"
  "unlinks (chat_handler_v3 w req) =
     (case req_file req of None \<Rightarrow> []
      | Some f \<Rightarrow> (case snd (normalize_file w f) of Thrown e \<Rightarrow> [] | Content c \<Rightarrow> [file_path f]
                    | Unsupported \<Rightarrow> [file_path f] | Uncaught e \<Rightarrow> []))"
  by (simp_all add: chat_handler_v1_trace chat_handler_v2_trace chat_handler_v3_trace
      processQueryAndRespond_v1_parts processQueryAndRespond_v2_parts processQueryAndRespond_v3_parts
      file_error_response_def split: option.split normalized.split)

text \<open>Uploads with nothing in them.\<close>

lemma normalize_empty_csv:
  "file_mimetype f = ''text/csv'' \<Longrightarrow> csv_stream w (file_path f) = ([], StreamEnd) \<Longrightarrow>
   normalize_file w f = ([FileRead (file_path f)], Content (JStr ''[]''))"
  by (simp add: normalize_file_def normalize_csv_def json_stringify_def)

lemma normalize_empty_xlsx:
  "file_mimetype f = ''application/vnd.openxmlformats-officedocument.spreadsheetml.sheet'' \<Longrightarrow>
   read_xlsx w (file_path f) = Inr ([] # others) \<Longrightarrow>
   normalize_file w f = ([FileRead (file_path f)], Content (JStr ''[]''))"
  by (simp add: normalize_file_def normalize_xlsx_def json_stringify_def xlsx_mime_def)

lemma normalize_empty_text:
  "file_mimetype f = ''text/plain'' \<Longrightarrow> read_file w (file_path f) = Inr [] \<Longrightarrow>
   normalize_file w f = ([FileRead (file_path f)], Content (JStr []))"
  by (simp add: normalize_file_def normalize_text_def)




text \<open>Beyond the safe integers the digits are the runtime's: \<open>2^69\<close> is printed rounded.\<close>

lemma number_beyond_safe_integers:
  "\<not> plain_int (2 ^ 69) \<and>
   number_to_string (w\<lparr>number_text := (\<lambda>n. ''590295810358705700000'')\<rparr>) (2 ^ 69)
     = ''590295810358705700000''"
  by (simp add: plain_int_def number_to_string_def)

text \<open>A falsy \<^verbatim>\<open>fileContent\<close> is as good as \<^verbatim>\<open>null\<close>.\<close>

lemma build_messages_falsy: "\<not> truthy fc \<Longrightarrow> build_messages w q fc = build_messages w q JNull"
  by (simp add: build_messages_def)

lemma processQueryAndRespond_falsy:
  "\<not> truthy fc \<Longrightarrow> processQueryAndRespond_v1 w q fc = processQueryAndRespond_v1 w q JNull"
  "\<not> truthy fc \<Longrightarrow> processQueryAndRespond_v2 w q fc = processQueryAndRespond_v2 w q JNull"
  "\<not> truthy fc \<Longrightarrow> processQueryAndRespond_v3 w q fc = processQueryAndRespond_v3 w q JNull"
  using build_messages_falsy [of fc w q]
  by (simp_all add: processQueryAndRespond_v1_def processQueryAndRespond_v2_def
      processQueryAndRespond_v3_def)

lemma processQueryAndRespond_empty:
  "processQueryAndRespond_v1 w q (JStr []) = processQueryAndRespond_v1 w q JNull"
  "processQueryAndRespond_v2 w q (JStr []) = processQueryAndRespond_v2 w q JNull"
  "processQueryAndRespond_v3 w q (JStr []) = processQueryAndRespond_v3 w q JNull"
  by (rule processQueryAndRespond_falsy, simp)+

text \<open>Where the chain of tests ends outside every \<^verbatim>\<open>try\<close>, and what a content can be.\<close>

lemma normalize_file_uncaught:
  "snd (normalize_file w f) = Uncaught e \<longleftrightarrow>
     file_mimetype f = ''text/csv'' \<and> snd (csv_stream w (file_path f)) = SourceError e"
  by (auto simp: normalize_file_def Let_def normalize_csv_def normalize_text_def normalize_json_def
      normalize_xlsx_def split: prod.split stream_end.split sum.split list.split)


text \<open>A CSV upload whose file stream fails: the request is left unanswered.\<close>

lemma csv_source_error_unanswered:
  assumes "req_file req = Some f" and "file_mimetype f = ''text/csv''"
    and "snd (csv_stream w (file_path f)) = SourceError e"
  shows "post_chat_v1 w req = [FileRead (file_path f), UncaughtError e]"
    and "chat_handler_v2 w req = [FileRead (file_path f), UncaughtError e]"
    and "chat_handler_v3 w req = [FileRead (file_path f), UncaughtError e]"
  using assms normalize_file_uncaught [of w f e]
  by (simp_all add: post_chat_v1_trace chat_handler_v2_trace chat_handler_v3_trace)

section \<open>The claims\<close>

text \<open>
  C1. Claimed: for every request with an uploaded file, on every exit path of the handler
  (normalization succeeded, reading or parsing failed, type unsupported) the temporary
  upload is deleted exactly once. The handlers unlink the file after the chain of tests and
  in the branch of the unsupported type, and not in the \<^verbatim>\<open>catch\<close> block: here an upload
  declared \<^verbatim>\<open>application/json\<close> whose text \<^verbatim>\<open>{\<close> does not parse is answered with the
  file-processing error by each of the three handlers, no \<^verbatim>\<open>fs.unlink\<close> is called, and
  the file is still in the uploads directory afterwards.
\<close>

theorem C1_parse_failure_leaves_upload:
  "chat_handler_v1 sample_world (sample_request ''uploads/bad'' ''application/json'')
     = [FileRead ''uploads/bad'', Respond 500 (Text ''Error processing file'')] \<and>
   chat_handler_v2 sample_world (sample_request ''uploads/bad'' ''application/json'')
     = [FileRead ''uploads/bad'', Respond 500 (Text ''Error processing file'')] \<and>
   chat_handler_v3 sample_world (sample_request ''uploads/bad'' ''application/json'')
     = [FileRead ''uploads/bad'', Respond 500 (Text ''Error processing file'')] \<and>
   unlinks (chat_handler_v1 sample_world (sample_request ''uploads/bad'' ''application/json'')) = [] \<and>
   storage_after [''uploads/bad'']
     (chat_handler_v1 sample_world (sample_request ''uploads/bad'' ''application/json'')) = [''uploads/bad'']"
  by (simp add: chat_handler_v1_def chat_handler_v2_def chat_handler_v3_def normalize_file_def
      normalize_json_def sample_request_def sample_upload_def sample_world_def file_error_response_def)




text \<open>
  C3. Claimed: an upload of any other declared type than the four accepted ones is answered
  by the handler with status 400 and a plain text naming the four types. The third iteration
  answers 400 with a text that names none, and in the first iteration the upload filter
  refuses the file before the handler runs, so the handler sends nothing.
\<close>

theorem C3_unsupported_answers_differ:
  "\<not> responses (chat_handler_v3 sample_world (sample_request ''uploads/pic'' ''image/png''))
       = [(400, Text ''Unsupported file type. Please upload a CSV, TXT, JSON, or XLSX file.'')] \<and>
   \<not> responses (post_chat_v1 sample_world (sample_request ''uploads/pic'' ''image/png''))
       = [(400, Text ''Unsupported file type. Please upload a CSV, TXT, JSON, or XLSX file.'')]"
  by (simp add: chat_handler_v3_def post_chat_v1_def fileFilter_def allowedTypes_def normalize_file_def
      sample_request_def sample_upload_def xlsx_mime_def)

text \<open>
  C3, as the three iterations have it. For an upload whose declared type is none of the four,
  the completion endpoint is never called, and: the second iteration unlinks the file
  and answers 400 with the text naming CSV, TXT, JSON and XLSX; the third iteration
  unlinks the file and answers 400 with \<^verbatim>\<open>Unsupported file type.\<close>; in the first
  iteration the upload filter hands the framework an error with the text naming the
  four types and the handler does not run.
\<close>

theorem C3_unsupported_type_not_sent_on:
  assumes "req_file req = Some f"
    and "file_mimetype f \<noteq> ''text/csv''" and "file_mimetype f \<noteq> ''text/plain''"
    and "file_mimetype f \<noteq> ''application/json''"
    and "file_mimetype f \<noteq> ''application/vnd.openxmlformats-officedocument.spreadsheetml.sheet''"
  shows "chat_handler_v2 w req =
           [Unlink (file_path f),
            Respond 400 (Text ''Unsupported file type. Please upload a CSV, TXT, JSON, or XLSX file.'')] \<and>
         chat_handler_v3 w req = [Unlink (file_path f), Respond 400 (Text ''Unsupported file type.'')] \<and>
         post_chat_v1 w req =
           [UploadRejected ''Unsupported file type. Please upload a CSV, TXT, JSON, or XLSX file.''] \<and>
         completion_calls (chat_handler_v2 w req) = [] \<and>
         completion_calls (chat_handler_v3 w req) = [] \<and>
         completion_calls (post_chat_v1 w req) = []"
  using assms
  by (simp add: chat_handler_v2_def chat_handler_v3_def post_chat_v1_def fileFilter_def allowedTypes_def
      normalize_file_def xlsx_mime_def unsupported_message_def)

theorem C3_unsupported_type_not_sent_on_witness:
  "req_file (sample_request ''uploads/pic'' ''image/png'') = Some (sample_upload ''uploads/pic'' ''image/png'') \<and>
   file_mimetype (sample_upload ''uploads/pic'' ''image/png'') = ''image/png'' \<and>
   chat_handler_v2 sample_world (sample_request ''uploads/pic'' ''image/png'') =
     [Unlink ''uploads/pic'',
      Respond 400 (Text ''Unsupported file type. Please upload a CSV, TXT, JSON, or XLSX file.'')] \<and>
   chat_handler_v3 sample_world (sample_request ''uploads/pic'' ''image/png'') =
     [Unlink ''uploads/pic'', Respond 400 (Text ''Unsupported file type.'')] \<and>
   post_chat_v1 sample_world (sample_request ''uploads/pic'' ''image/png'') =
     [UploadRejected ''Unsupported file type. Please upload a CSV, TXT, JSON, or XLSX file.''] \<and>
   completion_calls (chat_handler_v2 sample_world (sample_request ''uploads/pic'' ''image/png'')) = [] \<and>
   completion_calls (chat_handler_v3 sample_world (sample_request ''uploads/pic'' ''image/png'')) = [] \<and>
   completion_calls (post_chat_v1 sample_world (sample_request ''uploads/pic'' ''image/png'')) = []"
proof -
  have h1: "req_file (sample_request ''uploads/pic'' ''image/png'') = Some (sample_upload ''uploads/pic'' ''image/png'')"
    by (simp add: sample_request_def)
  have h2: "file_mimetype (sample_upload ''uploads/pic'' ''image/png'') = ''image/png''"
    by (simp add: sample_upload_def)
  have h3: "file_mimetype (sample_upload ''uploads/pic'' ''image/png'') \<noteq> ''text/csv''"
    "file_mimetype (sample_upload ''uploads/pic'' ''image/png'') \<noteq> ''text/plain''"
    "file_mimetype (sample_upload ''uploads/pic'' ''image/png'') \<noteq> ''application/json''"
    "file_mimetype (sample_upload ''uploads/pic'' ''image/png'')
       \<noteq> ''application/vnd.openxmlformats-officedocument.spreadsheetml.sheet''"
    by (simp_all add: sample_upload_def)
  have p: "file_path (sample_upload ''uploads/pic'' ''image/png'') = ''uploads/pic''"
    by (simp add: sample_upload_def)
  show ?thesis
    using h1 h2 C3_unsupported_type_not_sent_on [OF h1 h3, of sample_world]
    unfolding p by simp
qed

text \<open>
  C4. Claimed: every failure of the completion call is answered with status 500 and a body
  telling three cases apart, a remote error payload being forwarded as it is. The catch
  block of the third iteration has one case only: with a remote error
  payload its body carries the error's message, not the payload.
\<close>

theorem C4_third_iteration_drops_payload:
  "responses (processQueryAndRespond_v3 (sample_world\<lparr>post_completion := (\<lambda>ms. Inl rate_limit_error)\<rparr>)
      (JStr ''Hi'') JNull)
     = [(500, Json (JObj [(''message'', JStr ''Error processing request''),
                          (''details'', JStr ''Request failed with status code 429'')]))] \<and>
   \<not> responses (processQueryAndRespond_v3 (sample_world\<lparr>post_completion := (\<lambda>ms. Inl rate_limit_error)\<rparr>)
      (JStr ''Hi'') JNull)
     = [(500, Json (JObj [(''message'', JStr ''Error fetching response from OpenAI''),
                          (''details'', rate_limit_payload)]))]"
  by (simp add: processQueryAndRespond_v3_def Let_def respond_error_v3_def rate_limit_error_def)

text \<open>
  C4, as the three iterations have it. When the completion call fails, the first and
  the second iteration answer 500 with a body that forwards the remote
  payload as \<^verbatim>\<open>details\<close> when the error has a response, a network-error message when it
  has a request only, and otherwise the processing-error message with the error's text; the
  third iteration answers 500 with the processing-error message and
  the error's text in all three cases.
\<close>

theorem C4_completion_failure_bodies:
  assumes "post_completion w (build_messages w q fc) = Inl e"
  shows "responses (processQueryAndRespond_v1 w q fc) =
           [(500, Json (case err_response e of
                          Some payload \<Rightarrow> JObj [(''message'', JStr ''Error fetching response from OpenAI''),
                                                (''details'', payload)]
                        | None \<Rightarrow>
                            if err_request e
                            then JObj [(''message'', JStr ''Network error: No response received from OpenAI'')]
                            else JObj [(''message'', JStr ''Error processing request''),
                                       (''details'', JStr (err_message e))]))] \<and>
         responses (processQueryAndRespond_v2 w q fc) = responses (processQueryAndRespond_v1 w q fc) \<and>
         responses (processQueryAndRespond_v3 w q fc) =
           [(500, Json (JObj [(''message'', JStr ''Error processing request''),
                              (''details'', JStr (err_message e))]))]"
  using assms
  by (simp add: processQueryAndRespond_v1_def processQueryAndRespond_v2_def processQueryAndRespond_v3_def
      Let_def respond_error_def respond_error_v3_def split: option.split)

theorem C4_completion_failure_bodies_witness:
  "post_completion (sample_world\<lparr>post_completion := (\<lambda>ms. Inl rate_limit_error)\<rparr>)
      (build_messages (sample_world\<lparr>post_completion := (\<lambda>ms. Inl rate_limit_error)\<rparr>) (JStr ''Hi'') JNull) = Inl rate_limit_error \<and>
   responses (processQueryAndRespond_v1 (sample_world\<lparr>post_completion := (\<lambda>ms. Inl rate_limit_error)\<rparr>)
      (JStr ''Hi'') JNull)
     = [(500, Json (JObj [(''message'', JStr ''Error fetching response from OpenAI''),
                          (''details'', rate_limit_payload)]))] \<and>
   responses (processQueryAndRespond_v2 (sample_world\<lparr>post_completion := (\<lambda>ms. Inl rate_limit_error)\<rparr>)
      (JStr ''Hi'') JNull)
     = [(500, Json (JObj [(''message'', JStr ''Error fetching response from OpenAI''),
                          (''details'', rate_limit_payload)]))] \<and>
   responses (processQueryAndRespond_v3 (sample_world\<lparr>post_completion := (\<lambda>ms. Inl rate_limit_error)\<rparr>)
      (JStr ''Hi'') JNull)
     = [(500, Json (JObj [(''message'', JStr ''Error processing request''),
                          (''details'', JStr ''Request failed with status code 429'')]))]"
proof -
  have h: "post_completion (sample_world\<lparr>post_completion := (\<lambda>ms. Inl rate_limit_error)\<rparr>)
      (build_messages (sample_world\<lparr>post_completion := (\<lambda>ms. Inl rate_limit_error)\<rparr>) (JStr ''Hi'') JNull) = Inl rate_limit_error"
    by simp
  show ?thesis
    using h C4_completion_failure_bodies [OF h]
    by (simp add: rate_limit_error_def)
qed



text \<open>
  C6. An upload declared \<^verbatim>\<open>application/json\<close> whose text \<^verbatim>\<open>JSON.parse\<close> rejects: each
  handler (and the route of \<^verbatim>\<open>src/app.js\<close>, whose filter lets the type through) reads the
  file and answers with status 500 and the fixed text \<^verbatim>\<open>Error processing file\<close>, which
  carries nothing of the error; the handler returns, and nothing else happens.
\<close>

theorem C6_malformed_json_generic_error:
  assumes "req_file req = Some f" and "file_mimetype f = ''application/json''"
    and "read_file w (file_path f) = Inr rawData" and "json_parse w rawData = Inl e"
  shows "chat_handler_v1 w req = [FileRead (file_path f), Respond 500 (Text ''Error processing file'')] \<and>
         post_chat_v1 w req = [FileRead (file_path f), Respond 500 (Text ''Error processing file'')] \<and>
         chat_handler_v2 w req = [FileRead (file_path f), Respond 500 (Text ''Error processing file'')] \<and>
         chat_handler_v3 w req = [FileRead (file_path f), Respond 500 (Text ''Error processing file'')]"
  using assms
  by (simp add: chat_handler_v1_def chat_handler_v2_def chat_handler_v3_def post_chat_v1_def
      fileFilter_def allowedTypes_def normalize_file_def normalize_json_def file_error_response_def)

theorem C6_malformed_json_generic_error_witness:
  "req_file (sample_request ''uploads/bad'' ''application/json'') = Some (sample_upload ''uploads/bad'' ''application/json'') \<and>
   file_mimetype (sample_upload ''uploads/bad'' ''application/json'') = ''application/json'' \<and>
   read_file sample_world (file_path (sample_upload ''uploads/bad'' ''application/json'')) = Inr ''{'' \<and>
   json_parse sample_world ''{'' = Inl (JsError None False ''Unexpected end of JSON input'') \<and>
   chat_handler_v1 sample_world (sample_request ''uploads/bad'' ''application/json'')
     = [FileRead ''uploads/bad'', Respond 500 (Text ''Error processing file'')] \<and>
   post_chat_v1 sample_world (sample_request ''uploads/bad'' ''application/json'')
     = [FileRead ''uploads/bad'', Respond 500 (Text ''Error processing file'')] \<and>
   chat_handler_v2 sample_world (sample_request ''uploads/bad'' ''application/json'')
     = [FileRead ''uploads/bad'', Respond 500 (Text ''Error processing file'')] \<and>
   chat_handler_v3 sample_world (sample_request ''uploads/bad'' ''application/json'')
     = [FileRead ''uploads/bad'', Respond 500 (Text ''Error processing file'')]"
proof -
  have h1: "req_file (sample_request ''uploads/bad'' ''application/json'')
              = Some (sample_upload ''uploads/bad'' ''application/json'')"
    by (simp add: sample_request_def)
  have h2: "file_mimetype (sample_upload ''uploads/bad'' ''application/json'') = ''application/json''"
    by (simp add: sample_upload_def)
  have h3: "read_file sample_world (file_path (sample_upload ''uploads/bad'' ''application/json'')) = Inr ''{''"
    by (simp add: sample_world_def sample_upload_def)
  have h4: "json_parse sample_world ''{'' = Inl (JsError None False ''Unexpected end of JSON input'')"
    by (simp add: sample_world_def)
  show ?thesis
    using h1 h2 h3 h4 C6_malformed_json_generic_error [OF h1 h2 h3 h4]
    by (simp add: sample_upload_def)
qed

text \<open>
  C7. An upload declared \<^verbatim>\<open>text/csv\<close> whose parser emits no row and ends, and a
  spreadsheet whose first worksheet has no row to visit, both become the text \<^verbatim>\<open>[]\<close>,
  the serialization of the empty array, and not an error.
\<close>

theorem C7_empty_table_is_empty_array:
  "(file_mimetype f = ''text/csv'' \<and> csv_stream w (file_path f) = ([], StreamEnd) \<longrightarrow>
      snd (normalize_file w f) = Content (JStr ''[]'')) \<and>
   (file_mimetype f = ''application/vnd.openxmlformats-officedocument.spreadsheetml.sheet'' \<and>
    read_xlsx w (file_path f) = Inr ([] # others) \<longrightarrow>
      snd (normalize_file w f) = Content (JStr ''[]''))"
  by (simp add: normalize_empty_csv normalize_empty_xlsx)

theorem C7_empty_table_is_empty_array_witness:
  "file_mimetype (sample_upload ''uploads/rows'' ''text/csv'') = ''text/csv'' \<and>
   csv_stream sample_world (file_path (sample_upload ''uploads/rows'' ''text/csv'')) = ([], StreamEnd) \<and>
   snd (normalize_file sample_world (sample_upload ''uploads/rows'' ''text/csv'')) = Content (JStr ''[]'') \<and>
   file_mimetype (sample_upload ''uploads/book'' ''application/vnd.openxmlformats-officedocument.spreadsheetml.sheet'')
     = ''application/vnd.openxmlformats-officedocument.spreadsheetml.sheet'' \<and>
   read_xlsx sample_world
     (file_path (sample_upload ''uploads/book'' ''application/vnd.openxmlformats-officedocument.spreadsheetml.sheet''))
     = Inr ([] # []) \<and>
   snd (normalize_file sample_world
     (sample_upload ''uploads/book'' ''application/vnd.openxmlformats-officedocument.spreadsheetml.sheet''))
     = Content (JStr ''[]'')"
proof -
  have c1: "file_mimetype (sample_upload ''uploads/rows'' ''text/csv'') = ''text/csv''"
    by (simp add: sample_upload_def)
  have c2: "csv_stream sample_world (file_path (sample_upload ''uploads/rows'' ''text/csv'')) = ([], StreamEnd)"
    by (simp add: sample_world_def)
  have x1: "file_mimetype (sample_upload ''uploads/book'' ''application/vnd.openxmlformats-officedocument.spreadsheetml.sheet'')
     = ''application/vnd.openxmlformats-officedocument.spreadsheetml.sheet''"
    by (simp add: sample_upload_def)
  have x2: "read_xlsx sample_world
     (file_path (sample_upload ''uploads/book'' ''application/vnd.openxmlformats-officedocument.spreadsheetml.sheet''))
     = Inr ([] # [])"
    by (simp add: sample_world_def)
  show ?thesis
    using c1 c2 x1 x2
      C7_empty_table_is_empty_array [of "sample_upload ''uploads/rows'' ''text/csv''" sample_world "[]"]
      C7_empty_table_is_empty_array [of "sample_upload ''uploads/book'' ''application/vnd.openxmlformats-officedocument.spreadsheetml.sheet''" sample_world "[]"]
    by simp
qed

text \<open>
  C8. Claimed: on a successful completion response the handler returns the first choice's
  message text and, whenever the first choice or its text is absent, the fixed fallback
  string of its iteration. The iteration that checks the length of \<^verbatim>\<open>choices\<close> sends
  \<^verbatim>\<open>undefined\<close>, not its fallback, for a first choice whose message has no content; and
  an iteration with optional chaining answers a response without \<^verbatim>\<open>choices\<close> with the
  processing error, not with its fallback.
\<close>

theorem C8_fallback_not_always:
  "\<not> responses (processQueryAndRespond_v3
          (sample_world\<lparr>post_completion := (\<lambda>ms. Inr (JObj [(''choices'', JArr [JObj [(''message'', JObj [])]])]))\<rparr>)
          (JStr ''Hi'') JNull)
       = [(200, Json (JObj [(''response'', JStr ''No valid response from the AI.'')]))] \<and>
   \<not> responses (processQueryAndRespond_v2 (sample_world\<lparr>post_completion := (\<lambda>ms. Inr (JObj []))\<rparr>)
          (JStr ''Hi'') JNull)
       = [(200, Json (JObj [(''response'', JStr ''No response from AI'')]))]"
  by (simp add: processQueryAndRespond_v3_def processQueryAndRespond_v2_def Let_def opt_prop_def
      first_content_def ai_response_def respond_error_def type_error_def)

text \<open>
  C8, as the three iterations have it, for a completion call that succeeded. Where
  \<^verbatim>\<open>choices\<close> is an array, the iterations with optional chaining return the content of the
  first choice's message when it is truthy, and \<^verbatim>\<open>No response from AI\<close> when the array is
  empty or the first choice, its message or its content is absent or empty
  (the first iteration, which also needs the token count to be readable, appends its footer).
  The iteration that checks the length returns \<^verbatim>\<open>No valid response from the AI.\<close> when
  \<^verbatim>\<open>choices\<close> is absent or an empty array, and the content of the first choice's message
  when the first choice has a message.
\<close>

theorem C8_first_choice_or_fallback:
  assumes "post_completion w (build_messages w q fc) = Inr data"
  shows "(get_prop data ''choices'' = Inr (JArr cs) \<longrightarrow>
            responses (processQueryAndRespond_v2 w q fc) =
              [(200, Json (JObj [(''response'',
                 (case cs of
                    [] \<Rightarrow> JStr ''No response from AI''
                  | c # rest \<Rightarrow>
                      if truthy (opt_prop (opt_prop c ''message'') ''content'')
                      then opt_prop (opt_prop c ''message'') ''content''
                      else JStr ''No response from AI''))]))]) \<and>
         (get_prop data ''choices'' = Inr (JArr cs) \<and> tokens_used data = Inr tk \<longrightarrow>
            responses (processQueryAndRespond_v1 w q fc) =
              [(200, Json (JObj [(''response'',
                 JStr (to_string w
                   (case cs of
                      [] \<Rightarrow> JStr ''No response from AI''
                    | c # rest \<Rightarrow>
                        if truthy (opt_prop (opt_prop c ''message'') ''content'')
                        then opt_prop (opt_prop c ''message'') ''content''
                        else JStr ''No response from AI'')
                   @ footer w (now_end w - now_start w) tk))]))]) \<and>
         (get_prop data ''choices'' = Inr ch \<and> (ch = JUndefined \<or> ch = JNull \<or> ch = JArr []) \<longrightarrow>
            responses (processQueryAndRespond_v3 w q fc) =
              [(200, Json (JObj [(''response'', JStr ''No valid response from the AI.'')]))]) \<and>
         (get_prop data ''choices'' = Inr (JArr (c1 # rest1)) \<and> get_prop c1 ''message'' = Inr m \<and>
          get_prop m ''content'' = Inr t \<longrightarrow>
            responses (processQueryAndRespond_v3 w q fc) = [(200, Json (JObj [(''response'', t)]))])"
proof -
  have v2: "get_prop data ''choices'' = Inr (JArr cs) \<Longrightarrow>
            responses (processQueryAndRespond_v2 w q fc) =
              [(200, Json (JObj [(''response'',
                 (case cs of
                    [] \<Rightarrow> JStr ''No response from AI''
                  | c # rest \<Rightarrow>
                      if truthy (opt_prop (opt_prop c ''message'') ''content'')
                      then opt_prop (opt_prop c ''message'') ''content''
                      else JStr ''No response from AI''))]))]"
    using assms
    by (simp add: processQueryAndRespond_v2_def Let_def ai_response_def js_or_def opt_prop_def
        split: list.split)
  have v1: "get_prop data ''choices'' = Inr (JArr cs) \<Longrightarrow> tokens_used data = Inr tk \<Longrightarrow>
            responses (processQueryAndRespond_v1 w q fc) =
              [(200, Json (JObj [(''response'',
                 JStr (to_string w
                   (case cs of
                      [] \<Rightarrow> JStr ''No response from AI''
                    | c # rest \<Rightarrow>
                        if truthy (opt_prop (opt_prop c ''message'') ''content'')
                        then opt_prop (opt_prop c ''message'') ''content''
                        else JStr ''No response from AI'')
                   @ footer w (now_end w - now_start w) tk))]))]"
    using assms
    by (simp add: processQueryAndRespond_v1_def Let_def ai_response_def js_or_def opt_prop_def
        split: list.split)
  have v3a: "get_prop data ''choices'' = Inr ch \<Longrightarrow> ch = JUndefined \<or> ch = JNull \<or> ch = JArr [] \<Longrightarrow>
            responses (processQueryAndRespond_v3 w q fc) =
              [(200, Json (JObj [(''response'', JStr ''No valid response from the AI.'')]))]"
    using assms
    by (auto simp: processQueryAndRespond_v3_def Let_def opt_prop_def)
  have v3b: "get_prop data ''choices'' = Inr (JArr (c1 # rest1)) \<Longrightarrow> get_prop c1 ''message'' = Inr m \<Longrightarrow>
          get_prop m ''content'' = Inr t \<Longrightarrow>
            responses (processQueryAndRespond_v3 w q fc) = [(200, Json (JObj [(''response'', t)]))]"
    using assms
    by (simp add: processQueryAndRespond_v3_def Let_def opt_prop_def first_content_def)
  show ?thesis using v1 v2 v3a v3b by blast
qed

theorem C8_first_choice_or_fallback_witness:
  "post_completion sample_world (build_messages sample_world (JStr ''Hi'') JNull) = Inr sample_answer \<and>
   get_prop sample_answer ''choices'' = Inr (JArr [JObj [(''message'', JObj [(''content'', JStr ''Hello'')])]]) \<and>
   tokens_used sample_answer = Inr (JNum 42) \<and>
   get_prop (JObj [(''message'', JObj [(''content'', JStr ''Hello'')])]) ''message''
     = Inr (JObj [(''content'', JStr ''Hello'')]) \<and>
   get_prop (JObj [(''content'', JStr ''Hello'')]) ''content'' = Inr (JStr ''Hello'') \<and>
   responses (processQueryAndRespond_v2 sample_world (JStr ''Hi'') JNull)
     = [(200, Json (JObj [(''response'', JStr ''Hello'')]))] \<and>
   responses (processQueryAndRespond_v1 sample_world (JStr ''Hi'') JNull)
     = [(200, Json (JObj [(''response'', JStr (''Hello'' @ footer sample_world 850 (JNum 42)))]))] \<and>
   responses (processQueryAndRespond_v3 sample_world (JStr ''Hi'') JNull)
     = [(200, Json (JObj [(''response'', JStr ''Hello'')]))] \<and>
   post_completion (sample_world\<lparr>post_completion := (\<lambda>ms. Inr (JObj [(''choices'', JArr [])]))\<rparr>)
     (build_messages (sample_world\<lparr>post_completion := (\<lambda>ms. Inr (JObj [(''choices'', JArr [])]))\<rparr>) (JStr ''Hi'') JNull) = Inr (JObj [(''choices'', JArr [])]) \<and>
   get_prop (JObj [(''choices'', JArr [])]) ''choices'' = Inr (JArr []) \<and>
   responses (processQueryAndRespond_v2
       (sample_world\<lparr>post_completion := (\<lambda>ms. Inr (JObj [(''choices'', JArr [])]))\<rparr>) (JStr ''Hi'') JNull)
     = [(200, Json (JObj [(''response'', JStr ''No response from AI'')]))] \<and>
   responses (processQueryAndRespond_v3
       (sample_world\<lparr>post_completion := (\<lambda>ms. Inr (JObj [(''choices'', JArr [])]))\<rparr>) (JStr ''Hi'') JNull)
     = [(200, Json (JObj [(''response'', JStr ''No valid response from the AI.'')]))]"
proof -
  let ?c = "JObj [(''message'', JObj [(''content'', JStr ''Hello'')])]"
  let ?w = "sample_world\<lparr>post_completion := (\<lambda>ms. Inr (JObj [(''choices'', JArr [])]))\<rparr>"
  have h1: "post_completion sample_world (build_messages sample_world (JStr ''Hi'') JNull) = Inr sample_answer"
    by (simp add: sample_world_def)
  have h2: "get_prop sample_answer ''choices'' = Inr (JArr [?c])"
    by (simp add: sample_answer_def)
  have h3: "tokens_used sample_answer = Inr (JNum 42)"
    by (simp add: tokens_used_def sample_answer_def)
  have h4: "get_prop ?c ''message'' = Inr (JObj [(''content'', JStr ''Hello'')])"
    by simp
  have h5: "get_prop (JObj [(''content'', JStr ''Hello'')]) ''content'' = Inr (JStr ''Hello'')"
    by simp
  have t: "now_end sample_world - now_start sample_world = 850"
    by (simp add: sample_world_def)
  have g1: "post_completion ?w (build_messages ?w (JStr ''Hi'') JNull) = Inr (JObj [(''choices'', JArr [])])"
    by simp
  have g2: "get_prop (JObj [(''choices'', JArr [])]) ''choices'' = Inr (JArr [])"
    by simp
  note T = C8_first_choice_or_fallback [OF h1, of "[?c]" "JNum 42" JUndefined ?c "[]"
      "JObj [(''content'', JStr ''Hello'')]" "JStr ''Hello''"]
  note U = C8_first_choice_or_fallback [OF g1, of "[]" JUndefined "JArr []" JUndefined "[]" JUndefined JUndefined]
  have r2: "responses (processQueryAndRespond_v2 sample_world (JStr ''Hi'') JNull)
     = [(200, Json (JObj [(''response'', JStr ''Hello'')]))]"
    using T [THEN conjunct1, THEN mp, OF h2] by (simp add: opt_prop_def)
  have r1: "responses (processQueryAndRespond_v1 sample_world (JStr ''Hi'') JNull)
     = [(200, Json (JObj [(''response'', JStr (''Hello'' @ footer sample_world 850 (JNum 42)))]))]"
    using T [THEN conjunct2, THEN conjunct1, THEN mp, OF conjI, OF h2 h3] unfolding t
    by (simp add: opt_prop_def)
  have r3: "responses (processQueryAndRespond_v3 sample_world (JStr ''Hi'') JNull)
     = [(200, Json (JObj [(''response'', JStr ''Hello'')]))]"
    using T [THEN conjunct2, THEN conjunct2, THEN conjunct2, THEN mp] h2 h4 h5 by blast
  have s2: "responses (processQueryAndRespond_v2 ?w (JStr ''Hi'') JNull)
     = [(200, Json (JObj [(''response'', JStr ''No response from AI'')]))]"
    using U [THEN conjunct1, THEN mp, OF g2] by simp
  have s3: "responses (processQueryAndRespond_v3 ?w (JStr ''Hi'') JNull)
     = [(200, Json (JObj [(''response'', JStr ''No valid response from the AI.'')]))]"
    using U [THEN conjunct2, THEN conjunct2, THEN conjunct1, THEN mp] g2 by blast
  show ?thesis
    by (intro conjI) (rule h1 h2 h3 h4 h5 r1 r2 r3 g1 g2 s2 s3)+
qed




text \<open>
  C10. The test \<^verbatim>\<open>if (fileContent)\<close> drops an empty content. Where the upload becomes
  the empty string, as an empty \<^verbatim>\<open>text/plain\<close> file does, each route does what it does
  for the same request without a file, after reading and unlinking the upload: the
  completion call gets the one message with the query (or the default instruction), and so
  the same response follows. An upload declared \<^verbatim>\<open>text/csv\<close> with no rows, or a
  spreadsheet whose first sheet has none, becomes \<^verbatim>\<open>[]\<close>, which is truthy, and the call
  gets the second message \<^verbatim>\<open>File content: []\<close>.
\<close>

theorem C10_empty_content_omitted:
  "(req_file req = Some f \<and> snd (normalize_file w f) = Content (JStr []) \<longrightarrow>
      post_chat_v1 w req
        = [FileRead (file_path f), Unlink (file_path f)] @ post_chat_v1 w (req\<lparr>req_file := None\<rparr>) \<and>
      chat_handler_v2 w req
        = [FileRead (file_path f), Unlink (file_path f)] @ chat_handler_v2 w (req\<lparr>req_file := None\<rparr>) \<and>
      chat_handler_v3 w req
        = [FileRead (file_path f), Unlink (file_path f)] @ chat_handler_v3 w (req\<lparr>req_file := None\<rparr>) \<and>
      completion_calls (post_chat_v1 w req)
        = [[user_msg (if truthy (req_query req) then req_query req
                      else JStr ''Please summarize the file content.'')]] \<and>
      completion_calls (chat_handler_v2 w req) = completion_calls (post_chat_v1 w req) \<and>
      completion_calls (chat_handler_v3 w req) = completion_calls (post_chat_v1 w req)) \<and>
   (req_file req = Some f \<and> file_mimetype f = ''text/plain'' \<and> read_file w (file_path f) = Inr [] \<longrightarrow>
      snd (normalize_file w f) = Content (JStr [])) \<and>
   (req_file req = Some f \<and>
    (file_mimetype f = ''text/csv'' \<and> csv_stream w (file_path f) = ([], StreamEnd) \<or>
     file_mimetype f = ''application/vnd.openxmlformats-officedocument.spreadsheetml.sheet'' \<and>
     read_xlsx w (file_path f) = Inr ([] # others)) \<longrightarrow>
      completion_calls (post_chat_v1 w req)
        = [[user_msg (if truthy (req_query req) then req_query req
                      else JStr ''Please summarize the file content.''),
            user_msg (JStr ''File content: []'')]] \<and>
      completion_calls (chat_handler_v2 w req) = completion_calls (post_chat_v1 w req) \<and>
      completion_calls (chat_handler_v3 w req) = completion_calls (post_chat_v1 w req))"
proof -
  let ?first = "user_msg (if truthy (req_query req) then req_query req
                          else JStr ''Please summarize the file content.'')"
  have empty: "req_file req = Some f \<and> snd (normalize_file w f) = Content (JStr []) \<longrightarrow>
      post_chat_v1 w req
        = [FileRead (file_path f), Unlink (file_path f)] @ post_chat_v1 w (req\<lparr>req_file := None\<rparr>) \<and>
      chat_handler_v2 w req
        = [FileRead (file_path f), Unlink (file_path f)] @ chat_handler_v2 w (req\<lparr>req_file := None\<rparr>) \<and>
      chat_handler_v3 w req
        = [FileRead (file_path f), Unlink (file_path f)] @ chat_handler_v3 w (req\<lparr>req_file := None\<rparr>) \<and>
      completion_calls (post_chat_v1 w req) = [[?first]] \<and>
      completion_calls (chat_handler_v2 w req) = completion_calls (post_chat_v1 w req) \<and>
      completion_calls (chat_handler_v3 w req) = completion_calls (post_chat_v1 w req)"
    by (simp add: post_chat_v1_trace chat_handler_v2_trace chat_handler_v3_trace
        processQueryAndRespond_empty processQueryAndRespond_v1_parts processQueryAndRespond_v2_parts
        processQueryAndRespond_v3_parts build_messages_def js_or_def default_query_def)
  have plain: "req_file req = Some f \<and> file_mimetype f = ''text/plain'' \<and> read_file w (file_path f) = Inr [] \<longrightarrow>
      snd (normalize_file w f) = Content (JStr [])"
    by (simp add: normalize_empty_text)
  have two: "snd (normalize_file w f) = Content (JStr ''[]'') \<Longrightarrow> req_file req = Some f \<longrightarrow>
      completion_calls (post_chat_v1 w req) = [[?first, user_msg (JStr ''File content: []'')]] \<and>
      completion_calls (chat_handler_v2 w req) = completion_calls (post_chat_v1 w req) \<and>
      completion_calls (chat_handler_v3 w req) = completion_calls (post_chat_v1 w req)"
    by (simp add: post_chat_v1_trace chat_handler_v2_trace chat_handler_v3_trace
        processQueryAndRespond_v1_parts processQueryAndRespond_v2_parts processQueryAndRespond_v3_parts
        build_messages_def js_or_def default_query_def)
  have table: "req_file req = Some f \<and>
    (file_mimetype f = ''text/csv'' \<and> csv_stream w (file_path f) = ([], StreamEnd) \<or>
     file_mimetype f = ''application/vnd.openxmlformats-officedocument.spreadsheetml.sheet'' \<and>
     read_xlsx w (file_path f) = Inr ([] # others)) \<longrightarrow>
      completion_calls (post_chat_v1 w req) = [[?first, user_msg (JStr ''File content: []'')]] \<and>
      completion_calls (chat_handler_v2 w req) = completion_calls (post_chat_v1 w req) \<and>
      completion_calls (chat_handler_v3 w req) = completion_calls (post_chat_v1 w req)"
  proof (rule impI, erule conjE, erule disjE)
    assume r: "req_file req = Some f"
      and "file_mimetype f = ''text/csv'' \<and> csv_stream w (file_path f) = ([], StreamEnd)"
    then have "snd (normalize_file w f) = Content (JStr ''[]'')"
      by (simp add: normalize_empty_csv)
    from two [OF this, THEN mp, OF r]
    show "completion_calls (post_chat_v1 w req) = [[?first, user_msg (JStr ''File content: []'')]] \<and>
      completion_calls (chat_handler_v2 w req) = completion_calls (post_chat_v1 w req) \<and>
      completion_calls (chat_handler_v3 w req) = completion_calls (post_chat_v1 w req)" .
  next
    assume r: "req_file req = Some f"
      and "file_mimetype f = ''application/vnd.openxmlformats-officedocument.spreadsheetml.sheet'' \<and>
           read_xlsx w (file_path f) = Inr ([] # others)"
    then have "snd (normalize_file w f) = Content (JStr ''[]'')"
      by (simp add: normalize_empty_xlsx)
    from two [OF this, THEN mp, OF r]
    show "completion_calls (post_chat_v1 w req) = [[?first, user_msg (JStr ''File content: []'')]] \<and>
      completion_calls (chat_handler_v2 w req) = completion_calls (post_chat_v1 w req) \<and>
      completion_calls (chat_handler_v3 w req) = completion_calls (post_chat_v1 w req)" .
  qed
  show ?thesis
    by (rule conjI [OF empty conjI [OF plain table]])
qed

theorem C10_empty_content_omitted_witness:
  "req_file (sample_request ''uploads/note'' ''text/plain'') = Some (sample_upload ''uploads/note'' ''text/plain'') \<and>
   file_mimetype (sample_upload ''uploads/note'' ''text/plain'') = ''text/plain'' \<and>
   read_file sample_world (file_path (sample_upload ''uploads/note'' ''text/plain'')) = Inr [] \<and>
   snd (normalize_file sample_world (sample_upload ''uploads/note'' ''text/plain'')) = Content (JStr []) \<and>
   completion_calls (post_chat_v1 sample_world (sample_request ''uploads/note'' ''text/plain''))
     = [[JObj [(''role'', JStr ''user''), (''content'', JStr ''What is this?'')]]] \<and>
   chat_handler_v2 sample_world (sample_request ''uploads/note'' ''text/plain'')
     = [FileRead ''uploads/note'', Unlink ''uploads/note'']
       @ chat_handler_v2 sample_world \<lparr> req_query = JStr ''What is this?'', req_file = None \<rparr> \<and>
   req_file (sample_request ''uploads/rows'' ''text/csv'') = Some (sample_upload ''uploads/rows'' ''text/csv'') \<and>
   file_mimetype (sample_upload ''uploads/rows'' ''text/csv'') = ''text/csv'' \<and>
   csv_stream sample_world (file_path (sample_upload ''uploads/rows'' ''text/csv'')) = ([], StreamEnd) \<and>
   completion_calls (post_chat_v1 sample_world (sample_request ''uploads/rows'' ''text/csv''))
     = [[JObj [(''role'', JStr ''user''), (''content'', JStr ''What is this?'')],
         JObj [(''role'', JStr ''user''), (''content'', JStr ''File content: []'')]]]"
proof -
  let ?rn = "sample_request ''uploads/note'' ''text/plain''"
  let ?fn = "sample_upload ''uploads/note'' ''text/plain''"
  let ?rc = "sample_request ''uploads/rows'' ''text/csv''"
  let ?fc = "sample_upload ''uploads/rows'' ''text/csv''"
  have h1: "req_file ?rn = Some ?fn"
    by (simp add: sample_request_def)
  have h2: "file_mimetype ?fn = ''text/plain''"
    by (simp add: sample_upload_def)
  have h3: "read_file sample_world (file_path ?fn) = Inr []"
    by (simp add: sample_world_def sample_upload_def)
  have k1: "req_file ?rc = Some ?fc"
    by (simp add: sample_request_def)
  have k2: "file_mimetype ?fc = ''text/csv''"
    by (simp add: sample_upload_def)
  have k3: "csv_stream sample_world (file_path ?fc) = ([], StreamEnd)"
    by (simp add: sample_world_def)
  note T = C10_empty_content_omitted [of ?rn ?fn sample_world "[]"]
  note U = C10_empty_content_omitted [of ?rc ?fc sample_world "[]"]
  have n: "snd (normalize_file sample_world ?fn) = Content (JStr [])"
    using T [THEN conjunct2, THEN conjunct1, THEN mp] h1 h2 h3 by blast
  note A = T [THEN conjunct1, THEN mp, OF conjI, OF h1 n]
  have a1: "completion_calls (post_chat_v1 sample_world ?rn)
     = [[JObj [(''role'', JStr ''user''), (''content'', JStr ''What is this?'')]]]"
    using A [THEN conjunct2, THEN conjunct2, THEN conjunct2, THEN conjunct1]
    by (simp add: sample_request_def user_msg_def)
  have a2: "chat_handler_v2 sample_world ?rn
     = [FileRead ''uploads/note'', Unlink ''uploads/note'']
       @ chat_handler_v2 sample_world \<lparr> req_query = JStr ''What is this?'', req_file = None \<rparr>"
    using A [THEN conjunct2, THEN conjunct1]
    by (simp add: sample_request_def sample_upload_def)
  have d: "completion_calls (post_chat_v1 sample_world ?rc)
     = [[JObj [(''role'', JStr ''user''), (''content'', JStr ''What is this?'')],
         JObj [(''role'', JStr ''user''), (''content'', JStr ''File content: []'')]]]"
    using U [THEN conjunct2, THEN conjunct2, THEN mp, OF conjI, OF k1 disjI1, OF conjI, OF k2 k3, THEN conjunct1]
    by (simp add: sample_request_def user_msg_def)
  show ?thesis
    by (intro conjI) (rule h1 h2 h3 n a1 a2 k1 k2 k3 d)+
qed

end
